theory Spec2Isabelle
  imports Complex_Main
begin

section \<open>Streaming hashed sparse features\<close>

text \<open>
  A shallow embedding of \<^verbatim>\<open>StreamingHashedSparseFeatures.cpp\<close>. The class is a
  template over the element type \<^verbatim>\<open>ST\<close>; the thirteen instantiations at the end of
  the file are the constructors of the datatype \<open>ST\<close>, and a function that depends
  on the template argument takes it as its first argument.

  The integers of the source (\<^verbatim>\<open>int32_t\<close>, \<^verbatim>\<open>index_t\<close>) are modelled as \<open>int\<close>:
  the file does no arithmetic on them (they are stored, compared and used as
  subscripts), so no operation here can wrap around. The numbers of the source
  (\<^verbatim>\<open>ST\<close> entries, \<^verbatim>\<open>float32_t\<close>, \<^verbatim>\<open>float64_t\<close>) are modelled as \<open>real\<close>: sums
  and products are exact, rounding is not modelled.
\<close>

subsection \<open>Errors\<close>

text \<open>
  \<open>AssertionFailed\<close>: the condition of an \<^verbatim>\<open>ASSERT\<close> is false and the macro raises.
  \<open>OutOfBounds\<close>: a subscript outside the extent of a dense array (undefined in C++).
  \<open>BadCast\<close>: the \<^verbatim>\<open>static_pointer_cast\<close> of \<^verbatim>\<open>dot\<close> applied to an object that is
  not a \<^verbatim>\<open>StreamingHashedSparseFeatures<ST>\<close> of the same \<^verbatim>\<open>ST\<close>: an object of another
  class or of another instantiation of this class (undefined in C++).
  \<open>InvalidDimension\<close>: the hash transform asked to reduce modulo a target dimension
  that is not positive.
\<close>

datatype error = AssertionFailed | OutOfBounds | BadCast | InvalidDimension

subsection \<open>Element types and type tags\<close>

datatype ST =
    ST_bool | ST_char | ST_int8 | ST_uint8 | ST_int16 | ST_uint16
  | ST_int32 | ST_uint32 | ST_int64 | ST_uint64
  | ST_float32 | ST_float64 | ST_floatmax

text \<open>
  Modelled from the spec: the enumeration \<^verbatim>\<open>EFeatureType\<close> is declared outside this
  file; the spec calls its members fixed enum-like identifiers for runtime type
  dispatch. The file names one member, \<^verbatim>\<open>F_UINT\<close>.
\<close>

datatype EFeatureType =
    F_UNKNOWN | F_BOOL | F_CHAR | F_BYTE | F_SHORT | F_WORD | F_INT | F_UINT
  | F_LONG | F_ULONG | F_SHORTREAL | F_DREAL | F_LONGREAL | F_ANY

text \<open>
  Modelled from the spec: the enumeration \<^verbatim>\<open>EFeatureClass\<close> is declared outside this
  file; the file names one member, \<^verbatim>\<open>C_STREAMING_SPARSE\<close>.
\<close>

datatype EFeatureClass = C_UNKNOWN | C_SPARSE | C_STREAMING_DENSE | C_STREAMING_SPARSE

subsection \<open>Sparse vectors\<close>

text \<open>
  \<^verbatim>\<open>SGSparseVector<ST>\<close> is an array \<^verbatim>\<open>features\<close> of entries with its count
  \<^verbatim>\<open>num_feat_entries\<close>: a list, whose length is the count.
\<close>

record SGSparseVectorEntry =
  feat_index :: int
  entry :: real

type_synonym SGSparseVector = "SGSparseVectorEntry list"

text \<open>One raw example of a source: its sparse vector and its label.\<close>

type_synonym example = "SGSparseVector \<times> real"

subsection \<open>The external source and the parser\<close>

text \<open>
  Modelled from the spec: the class \<^verbatim>\<open>StreamingFile\<close> is outside this file. The spec
  consumes it only through "get next raw sparse vector (and label)": a source is the
  sequence of examples it will still deliver.
\<close>

datatype StreamingFile = StreamingFile (records: "example list")

text \<open>
  Modelled from the spec: the adapter \<^verbatim>\<open>StreamingFileFromSparseFeatures\<close> is outside this
  file. It "wraps the batch as if it were an external source", with an optional
  parallel label array; a batch without labels delivers the label 0.
\<close>

definition StreamingFileFromSparseFeatures ::
    "SGSparseVector list \<Rightarrow> real list option \<Rightarrow> StreamingFile" where
  "StreamingFileFromSparseFeatures dot_features lab =
     (case lab of
        None \<Rightarrow> StreamingFile (map (\<lambda>v. (v, 0)) dot_features)
      | Some labels \<Rightarrow> StreamingFile (zip dot_features labels))"

text \<open>The two member functions of \<^verbatim>\<open>StreamingFile\<close> that the file registers as readers.\<close>

datatype reader = get_sparse_vector | get_sparse_vector_and_label

text \<open>
  Modelled from the spec: the member \<^verbatim>\<open>parser\<close> (an input parser) is outside this file.
  The spec gives the producer contract: start, "get next sparse vector and label",
  "finalize current example", stop. The parser holds the examples its source has not
  delivered yet, whether it runs, whether an example is handed out and not yet
  finalized, the two ownership flags and the registered readers.
\<close>

record InputParser =
  p_examples :: "example list"
  p_labelled :: bool
  p_ring_size :: int
  p_running :: bool
  p_example_held :: bool
  free_vectors_on_destruct :: bool
  free_vector_after_release :: bool
  read_vector :: "reader option"
  read_vector_and_label :: "reader option"

text \<open>Modelled from the spec: the parser as its default constructor leaves it.\<close>

definition new_parser :: InputParser where
  "new_parser =
     \<lparr> p_examples = [], p_labelled = False, p_ring_size = 0, p_running = False,
       p_example_held = False, free_vectors_on_destruct = True,
       free_vector_after_release = True, read_vector = None,
       read_vector_and_label = None \<rparr>"

text \<open>Modelled from the spec: \<^verbatim>\<open>parser.init(file, is_labelled, size)\<close>.\<close>

definition parser_init :: "InputParser \<Rightarrow> StreamingFile \<Rightarrow> bool \<Rightarrow> int \<Rightarrow> InputParser" where
  "parser_init p file is_labelled buffer_size =
     p\<lparr> p_examples := records file, p_labelled := is_labelled, p_ring_size := buffer_size \<rparr>"

text \<open>
  Modelled from the spec: \<^verbatim>\<open>parser.get_next_example(fv, length, label)\<close>. It writes
  its three reference arguments and returns true when the producer yields an
  example; when the producer is stopped or exhausted it returns false and writes
  nothing. \<open>None\<close> is the return value false.
\<close>

definition parser_get_next_example ::
    "InputParser \<Rightarrow> (SGSparseVector \<times> real \<times> InputParser) option" where
  "parser_get_next_example p =
     (if p_running p then
        (case p_examples p of
           [] \<Rightarrow> None
         | (fv, label) # rest \<Rightarrow>
             Some (fv, label, p\<lparr> p_examples := rest, p_example_held := True \<rparr>))
      else None)"

text \<open>Modelled from the spec: the remaining operations of the parser.\<close>

definition finalize_example :: "InputParser \<Rightarrow> InputParser" where
  "finalize_example p = p\<lparr> p_example_held := False \<rparr>"

definition is_running :: "InputParser \<Rightarrow> bool" where
  "is_running p = p_running p"

definition parser_start_parser :: "InputParser \<Rightarrow> InputParser" where
  "parser_start_parser p = p\<lparr> p_running := True \<rparr>"

definition parser_end_parser :: "InputParser \<Rightarrow> InputParser" where
  "parser_end_parser p = p\<lparr> p_running := False \<rparr>"

definition set_free_vectors_on_destruct :: "InputParser \<Rightarrow> bool \<Rightarrow> InputParser" where
  "set_free_vectors_on_destruct p b = p\<lparr> free_vectors_on_destruct := b \<rparr>"

definition set_free_vector_after_release :: "InputParser \<Rightarrow> bool \<Rightarrow> InputParser" where
  "set_free_vector_after_release p b = p\<lparr> free_vector_after_release := b \<rparr>"

definition set_read_vector :: "InputParser \<Rightarrow> reader \<Rightarrow> InputParser" where
  "set_read_vector p r = p\<lparr> read_vector := Some r \<rparr>"

definition set_read_vector_and_label :: "InputParser \<Rightarrow> reader \<Rightarrow> InputParser" where
  "set_read_vector_and_label p r = p\<lparr> read_vector_and_label := Some r \<rparr>"

subsection \<open>The hash transform and the sparse dot product\<close>

text \<open>
  Modelled from the spec: \<^verbatim>\<open>HashedSparseFeatures<ST>::hash_vector\<close> is outside this
  file. The spec's contract (Hash Transform): every input entry \<open>(i, v)\<close> gives the
  linear term \<open>(hash i mod dim, v)\<close>, unless \<open>use_quadratic\<close> is set and
  \<open>keep_linear\<close> is not; with \<open>use_quadratic\<close>, every unordered pair of input
  entries, an entry with itself included, gives a term at \<open>hash_pair i j mod dim\<close>
  of value \<open>v_i * v_j\<close>; terms that fall on one target index are merged by summing
  them, so the output has one entry for each distinct target index. The two hash
  functions are parameters; they return unsigned numbers. The spec defines the
  transform for a valid (positive) \<open>dim\<close>; reducing modulo a dimension that is
  not positive is the error \<open>InvalidDimension\<close>.
\<close>

definition linear_terms :: "(int \<Rightarrow> nat) \<Rightarrow> int \<Rightarrow> SGSparseVector \<Rightarrow> SGSparseVector" where
  "linear_terms hash d vec =
     map (\<lambda>f. \<lparr> feat_index = int (hash (feat_index f)) mod d, entry = entry f \<rparr>) vec"

fun quadratic_terms ::
    "(int \<Rightarrow> int \<Rightarrow> nat) \<Rightarrow> int \<Rightarrow> SGSparseVector \<Rightarrow> SGSparseVector" where
  "quadratic_terms hash_pair d [] = []"
| "quadratic_terms hash_pair d (f # fs) =
     map (\<lambda>g. \<lparr> feat_index = int (hash_pair (feat_index f) (feat_index g)) mod d,
                entry = entry f * entry g \<rparr>) (f # fs)
     @ quadratic_terms hash_pair d fs"

definition merge_terms :: "SGSparseVector \<Rightarrow> SGSparseVector" where
  "merge_terms terms =
     map (\<lambda>i. \<lparr> feat_index = i,
                entry = sum_list (map entry (filter (\<lambda>f. feat_index f = i) terms)) \<rparr>)
       (remdups (map feat_index terms))"

definition hash_vector ::
    "(int \<Rightarrow> nat) \<Rightarrow> (int \<Rightarrow> int \<Rightarrow> nat) \<Rightarrow> SGSparseVector \<Rightarrow> int \<Rightarrow> bool \<Rightarrow> bool
      \<Rightarrow> error + SGSparseVector" where
  "hash_vector hash hash_pair vec d use_quadr keep_lin_terms =
     (if d \<le> 0 then Inl InvalidDimension
      else Inr (merge_terms
        ((if use_quadr \<and> \<not> keep_lin_terms then [] else linear_terms hash d vec)
         @ (if use_quadr then quadratic_terms hash_pair d vec else []))))"

text \<open>
  Modelled from the spec: \<^verbatim>\<open>SGSparseVector<ST>::sparse_dot\<close> is outside this file. The
  spec: the sum, over the indices present in both vectors, of the product of the two
  values at the index.
\<close>

definition sparse_dot :: "SGSparseVector \<Rightarrow> SGSparseVector \<Rightarrow> real" where
  "sparse_dot a b =
     sum_list (map (\<lambda>f. sum_list (map (\<lambda>g. entry f * entry g)
                                     (filter (\<lambda>g. feat_index g = feat_index f) b))) a)"

subsection \<open>The pipeline object\<close>

text \<open>
  The members of the class that the file reads or writes. \<open>generic\<close> is the element
  type recorded by \<^verbatim>\<open>set_generic<ST>()\<close>.
\<close>

record StreamingHashedSparseFeatures =
  dim :: int
  use_quadratic :: bool
  keep_linear_terms :: bool
  has_labels :: bool
  seekable :: bool
  working_file :: "StreamingFile option"
  parser :: InputParser
  current_vector :: SGSparseVector
  current_label :: real
  generic :: "ST option"

text \<open>
  Modelled from the spec: the object before the body of a constructor runs. The
  base-class constructors and the member declarations are outside this file. The
  current vector is empty and the parser is new ("calling before any successful
  advance yields an empty vector"); \<open>seekable\<close> and \<open>current_label\<close>, which
  \<^verbatim>\<open>init\<close> does not always assign, start at the values given; every other member is
  assigned by \<^verbatim>\<open>init\<close> before it is read.
\<close>

definition new_object :: "bool \<Rightarrow> real \<Rightarrow> StreamingHashedSparseFeatures" where
  "new_object seekable0 label0 =
     \<lparr> dim = 0, use_quadratic = False, keep_linear_terms = False, has_labels = False,
       seekable = seekable0, working_file = None, parser = new_parser,
       current_vector = [], current_label = label0, generic = None \<rparr>"

definition set_vector_reader :: "StreamingHashedSparseFeatures \<Rightarrow> StreamingHashedSparseFeatures" where
  "set_vector_reader this = this\<lparr> parser := set_read_vector (parser this) get_sparse_vector \<rparr>"

definition set_vector_and_label_reader ::
    "StreamingHashedSparseFeatures \<Rightarrow> StreamingHashedSparseFeatures" where
  "set_vector_and_label_reader this =
     this\<lparr> parser := set_read_vector_and_label (parser this) get_sparse_vector_and_label \<rparr>"

text \<open>
  Modelled from the spec: \<^verbatim>\<open>set_read_functions\<close> is a base-class member outside this
  file; it registers the two readers through the two virtual members above.
\<close>

definition set_read_functions :: "StreamingHashedSparseFeatures \<Rightarrow> StreamingHashedSparseFeatures" where
  "set_read_functions this = set_vector_and_label_reader (set_vector_reader this)"

text \<open>Modelled from the spec: \<^verbatim>\<open>set_generic<ST>()\<close> is a base-class member outside this file.\<close>

definition set_generic :: "ST \<Rightarrow> StreamingHashedSparseFeatures \<Rightarrow> StreamingHashedSparseFeatures" where
  "set_generic T this = this\<lparr> generic := Some T \<rparr>"

text \<open>
  \<^verbatim>\<open>init\<close>. The \<^verbatim>\<open>SG_ADD\<close> lines register the members as parameters and change
  none of them. The argument \<^verbatim>\<open>size\<close> is \<open>buffer_size\<close> here. A null
  \<^verbatim>\<open>file\<close> is \<open>None\<close>; the branch \<^verbatim>\<open>file = NULL\<close> assigns the local
  variable only.
\<close>

definition init ::
    "ST \<Rightarrow> StreamingHashedSparseFeatures \<Rightarrow> StreamingFile option \<Rightarrow> bool \<Rightarrow> int \<Rightarrow> int
      \<Rightarrow> bool \<Rightarrow> bool \<Rightarrow> StreamingHashedSparseFeatures" where
  "init T this file is_labelled buffer_size d use_quadr keep_lin_terms =
     (let this = this\<lparr> dim := d \<rparr>;
          this = this\<lparr> use_quadratic := use_quadr \<rparr>;
          this = this\<lparr> keep_linear_terms := keep_lin_terms \<rparr>;
          this = this\<lparr> has_labels := is_labelled \<rparr>;
          this = (case file of
                    Some f \<Rightarrow>
                      this\<lparr> working_file := Some f,
                            parser := parser_init (parser this) f is_labelled buffer_size,
                            seekable := False \<rparr>
                  | None \<Rightarrow> this);
          this = set_read_functions this;
          this = this\<lparr> parser := set_free_vector_after_release (parser this) False \<rparr>
      in set_generic T this)"

text \<open>
  The three constructors. None of the first two can fail; the third asserts that
  its batch is not null. The arguments \<open>seekable0\<close> and \<open>label0\<close> are the values
  of the two members before the constructor's body runs.
\<close>

definition StreamingHashedSparseFeatures_default ::
    "ST \<Rightarrow> bool \<Rightarrow> real \<Rightarrow> error + StreamingHashedSparseFeatures" where
  "StreamingHashedSparseFeatures_default T seekable0 label0 =
     Inr (init T (new_object seekable0 label0) None False 0 0 False True)"

definition StreamingHashedSparseFeatures_file ::
    "ST \<Rightarrow> bool \<Rightarrow> real \<Rightarrow> StreamingFile option \<Rightarrow> bool \<Rightarrow> int \<Rightarrow> int \<Rightarrow> bool \<Rightarrow> bool
      \<Rightarrow> error + StreamingHashedSparseFeatures" where
  "StreamingHashedSparseFeatures_file T seekable0 label0 file is_labelled buffer_size d use_quadr
       keep_lin_terms =
     Inr (init T (new_object seekable0 label0) file is_labelled buffer_size d use_quadr
            keep_lin_terms)"

definition StreamingHashedSparseFeatures_sparse ::
    "ST \<Rightarrow> bool \<Rightarrow> real \<Rightarrow> SGSparseVector list option \<Rightarrow> int \<Rightarrow> bool \<Rightarrow> bool
      \<Rightarrow> real list option \<Rightarrow> error + StreamingHashedSparseFeatures" where
  "StreamingHashedSparseFeatures_sparse T seekable0 label0 dot_features d use_quadr
       keep_lin_terms lab =
     (case dot_features of
        None \<Rightarrow> Inl AssertionFailed
      | Some batch \<Rightarrow>
          (let file = StreamingFileFromSparseFeatures batch lab;
               is_labelled = (lab \<noteq> None);
               buffer_size = 1024;
               this = init T (new_object seekable0 label0) (Some file) is_labelled buffer_size d
                        use_quadr keep_lin_terms;
               this = this\<lparr> parser := set_free_vectors_on_destruct (parser this) False \<rparr>
           in Inr (this\<lparr> seekable := True \<rparr>)))"

subsection \<open>Queries\<close>

definition get_feature_type :: "ST \<Rightarrow> EFeatureType" where
  "get_feature_type T = F_UINT"

definition get_feature_class :: "ST \<Rightarrow> EFeatureClass" where
  "get_feature_class T = C_STREAMING_SPARSE"

definition get_name :: "ST \<Rightarrow> string" where
  "get_name T = ''StreamingHashedSparseFeatures''"

definition get_dim_feature_space :: "StreamingHashedSparseFeatures \<Rightarrow> int" where
  "get_dim_feature_space this = dim this"

definition get_num_features :: "StreamingHashedSparseFeatures \<Rightarrow> int" where
  "get_num_features this = dim this"

definition get_num_vectors :: "StreamingHashedSparseFeatures \<Rightarrow> int" where
  "get_num_vectors this = 1"

definition get_label :: "StreamingHashedSparseFeatures \<Rightarrow> real" where
  "get_label this = current_label this"

definition get_vector :: "StreamingHashedSparseFeatures \<Rightarrow> SGSparseVector" where
  "get_vector this = current_vector this"

subsection \<open>Vector algebra\<close>

text \<open>
  The argument of \<^verbatim>\<open>dot\<close> is a shared pointer to any streaming dot-features
  object: null (\<open>None\<close>), an instantiation of this class, or an object of another
  class, of which \<^verbatim>\<open>dot\<close> sees the feature type tag and the name. After its
  assertions \<^verbatim>\<open>dot\<close> casts the operand to \<^verbatim>\<open>StreamingHashedSparseFeatures<ST>\<close>
  without a check; the cast is defined only when the operand is an object of that
  very instantiation, and anything else is the error \<open>BadCast\<close>.
\<close>

datatype StreamingDotFeatures =
    Hashed ST StreamingHashedSparseFeatures
  | Other EFeatureType string

fun df_get_feature_type :: "StreamingDotFeatures \<Rightarrow> EFeatureType" where
  "df_get_feature_type (Hashed T hdf) = get_feature_type T"
| "df_get_feature_type (Other t n) = t"

fun df_get_name :: "StreamingDotFeatures \<Rightarrow> string" where
  "df_get_name (Hashed T hdf) = get_name T"
| "df_get_name (Other t n) = n"

definition dot ::
    "ST \<Rightarrow> StreamingHashedSparseFeatures \<Rightarrow> StreamingDotFeatures option \<Rightarrow> error + real" where
  "dot T this df =
     (case df of
        None \<Rightarrow> Inl AssertionFailed
      | Some d \<Rightarrow>
          if df_get_feature_type d \<noteq> get_feature_type T then Inl AssertionFailed
          else if df_get_name d \<noteq> get_name T then Inl AssertionFailed
          else (case d of
                  Hashed T' hdf \<Rightarrow>
                    if T' = T
                    then Inr (sparse_dot (current_vector this) (current_vector hdf))
                    else Inl BadCast
                | Other t n \<Rightarrow> Inl BadCast))"

text \<open>
  The dense array \<^verbatim>\<open>vec2\<close> is a pointer with a declared length \<^verbatim>\<open>vec2_len\<close>: the
  list is the array as it is allocated, and a subscript outside it is an error.
\<close>

fun dense_dot_loop :: "SGSparseVector \<Rightarrow> real list \<Rightarrow> real \<Rightarrow> error + real" where
  "dense_dot_loop [] vec2 result = Inr result"
| "dense_dot_loop (f # fs) vec2 result =
     (if 0 \<le> feat_index f \<and> feat_index f < int (length vec2)
      then dense_dot_loop fs vec2 (result + vec2 ! nat (feat_index f) * entry f)
      else Inl OutOfBounds)"

definition dense_dot :: "StreamingHashedSparseFeatures \<Rightarrow> real list \<Rightarrow> int \<Rightarrow> error + real" where
  "dense_dot this vec2 vec2_len =
     (if vec2_len \<noteq> dim this then Inl AssertionFailed
      else dense_dot_loop (current_vector this) vec2 0)"

fun add_to_dense_vec_loop :: "SGSparseVector \<Rightarrow> real \<Rightarrow> real list \<Rightarrow> error + real list" where
  "add_to_dense_vec_loop [] alpha vec2 = Inr vec2"
| "add_to_dense_vec_loop (f # fs) alpha vec2 =
     (if 0 \<le> feat_index f \<and> feat_index f < int (length vec2)
      then add_to_dense_vec_loop fs alpha
             (vec2[nat (feat_index f) := vec2 ! nat (feat_index f) + alpha * entry f])
      else Inl OutOfBounds)"

definition add_to_dense_vec ::
    "StreamingHashedSparseFeatures \<Rightarrow> real \<Rightarrow> real list \<Rightarrow> int \<Rightarrow> bool \<Rightarrow> error + real list" where
  "add_to_dense_vec this alpha vec2 vec2_len abs_val =
     (if vec2_len \<noteq> dim this then Inl AssertionFailed
      else (let alpha = (if abs_val then \<bar>alpha\<bar> else alpha)
            in add_to_dense_vec_loop (current_vector this) alpha vec2))"

subsection \<open>The streaming lifecycle\<close>

definition start_parser :: "StreamingHashedSparseFeatures \<Rightarrow> StreamingHashedSparseFeatures" where
  "start_parser this =
     (if \<not> is_running (parser this) then this\<lparr> parser := parser_start_parser (parser this) \<rparr>
      else this)"

definition end_parser :: "StreamingHashedSparseFeatures \<Rightarrow> StreamingHashedSparseFeatures" where
  "end_parser this = this\<lparr> parser := parser_end_parser (parser this) \<rparr>"

text \<open>
  \<^verbatim>\<open>get_next_example\<close>. The parser writes \<^verbatim>\<open>current_label\<close> through its reference
  argument before the raw vector is hashed. The result is the returned flag and
  the object after the call.
\<close>

definition get_next_example ::
    "(int \<Rightarrow> nat) \<Rightarrow> (int \<Rightarrow> int \<Rightarrow> nat) \<Rightarrow> StreamingHashedSparseFeatures
      \<Rightarrow> error + (bool \<times> StreamingHashedSparseFeatures)" where
  "get_next_example hash hash_pair this =
     (case parser_get_next_example (parser this) of
        Some (tmp, label, p) \<Rightarrow>
          (let this = this\<lparr> parser := p, current_label := label \<rparr>
           in case hash_vector hash hash_pair tmp (dim this) (use_quadratic this)
                     (keep_linear_terms this) of
                Inl e \<Rightarrow> Inl e
              | Inr hashed \<Rightarrow> Inr (True, this\<lparr> current_vector := hashed \<rparr>))
      | None \<Rightarrow> Inr (False, this))"

definition release_example :: "StreamingHashedSparseFeatures \<Rightarrow> StreamingHashedSparseFeatures" where
  "release_example this = this\<lparr> parser := finalize_example (parser this) \<rparr>"

text \<open>
  A caller's use of a pipeline is a sequence of lifecycle operations; a sequence
  stops at the first operation that fails.
\<close>

datatype operation = Start | Advance | Release | Stop

fun run ::
    "(int \<Rightarrow> nat) \<Rightarrow> (int \<Rightarrow> int \<Rightarrow> nat) \<Rightarrow> operation list \<Rightarrow> StreamingHashedSparseFeatures
      \<Rightarrow> error + StreamingHashedSparseFeatures" where
  "run hash hash_pair [] this = Inr this"
| "run hash hash_pair (Start # ops) this = run hash hash_pair ops (start_parser this)"
| "run hash hash_pair (Advance # ops) this =
     (case get_next_example hash hash_pair this of
        Inl e \<Rightarrow> Inl e
      | Inr (got, this') \<Rightarrow> run hash hash_pair ops this')"
| "run hash hash_pair (Release # ops) this = run hash hash_pair ops (release_example this)"
| "run hash hash_pair (Stop # ops) this = run hash hash_pair ops (end_parser this)"

text \<open>A construction is a call of one of the three constructors.\<close>

datatype construction =
    Default ST bool real
  | FromFile ST bool real "StreamingFile option" bool int int bool bool
  | FromSparse ST bool real "SGSparseVector list option" int bool bool "real list option"

fun construct :: "construction \<Rightarrow> error + StreamingHashedSparseFeatures" where
  "construct (Default T seekable0 label0) =
     StreamingHashedSparseFeatures_default T seekable0 label0"
| "construct (FromFile T seekable0 label0 file is_labelled buffer_size d use_quadr
       keep_lin_terms) =
     StreamingHashedSparseFeatures_file T seekable0 label0 file is_labelled buffer_size d
       use_quadr keep_lin_terms"
| "construct (FromSparse T seekable0 label0 dot_features d use_quadr keep_lin_terms lab) =
     StreamingHashedSparseFeatures_sparse T seekable0 label0 dot_features d use_quadr
       keep_lin_terms lab"

subsection \<open>The accumulation as the specification words it\<close>

text \<open>
  The specification of \<open>accumulate_into_dense\<close>, in its own words and not from the
  code: "requires \<open>dense_len == dim\<close>; for each entry, adds \<open>alpha * value\<close> (or
  \<open>alpha * abs(value)\<close> if \<open>use_abs\<close>) into \<open>dense_vec[idx]\<close>". It is compared
  with \<open>add_to_dense_vec\<close> below.
\<close>

definition accumulate_into_dense ::
    "StreamingHashedSparseFeatures \<Rightarrow> real list \<Rightarrow> int \<Rightarrow> real \<Rightarrow> bool \<Rightarrow> error + real list" where
  "accumulate_into_dense this dense_vec dense_len alpha use_abs =
     (if dense_len \<noteq> dim this then Inl AssertionFailed
      else Inr (foldl
        (\<lambda>v f. v[nat (feat_index f) :=
                  v ! nat (feat_index f) + alpha * (if use_abs then \<bar>entry f\<bar> else entry f)])
        dense_vec (current_vector this)))"

subsection \<open>Example pipelines\<close>

text \<open>
  Two hash functions to run the transform on examples (the pair hash is symmetric),
  and a pipeline over a source of one labelled example \<open>[(1, v)]\<close> with target
  dimension \<open>d\<close>, started and advanced once.
\<close>

definition example_hash :: "int \<Rightarrow> nat" where
  "example_hash i = nat \<bar>i\<bar>"

definition example_hash_pair :: "int \<Rightarrow> int \<Rightarrow> nat" where
  "example_hash_pair i j = nat \<bar>i + j\<bar>"

definition example_pipeline :: "int \<Rightarrow> real \<Rightarrow> error + StreamingHashedSparseFeatures" where
  "example_pipeline d v =
     (case construct (FromFile ST_float64 False 0
             (Some (StreamingFile [([\<lparr> feat_index = 1, entry = v \<rparr>], 7)]))
             True 1024 d False True) of
        Inl e \<Rightarrow> Inl e
      | Inr this \<Rightarrow> run example_hash example_hash_pair [Start, Advance] this)"

text \<open>
  A pipeline over an in-memory batch of two labelled vectors, with target dimension
  4, quadratic terms and linear terms.
\<close>

definition example_batch :: construction where
  "example_batch =
     FromSparse ST_int32 False 0
       (Some [[\<lparr> feat_index = 3, entry = 2 \<rparr>, \<lparr> feat_index = 7, entry = 5 \<rparr>],
              [\<lparr> feat_index = 9, entry = 1 \<rparr>]])
       4 True True (Some [1, - 1])"

section \<open>Properties\<close>

subsection \<open>Unfolding and evaluation\<close>

lemmas ctor_defs =
  StreamingHashedSparseFeatures_default_def StreamingHashedSparseFeatures_file_def
  StreamingHashedSparseFeatures_sparse_def init_def new_object_def new_parser_def
  set_read_functions_def set_vector_reader_def set_vector_and_label_reader_def
  set_read_vector_def set_read_vector_and_label_def set_free_vector_after_release_def
  set_free_vectors_on_destruct_def set_generic_def parser_init_def
  StreamingFileFromSparseFeatures_def

lemmas run_defs =
  start_parser_def is_running_def parser_start_parser_def get_next_example_def
  parser_get_next_example_def hash_vector_def linear_terms_def merge_terms_def
  end_parser_def parser_end_parser_def release_example_def finalize_example_def
  example_hash_def example_hash_pair_def

lemma example_pipeline_value:
  "1 < d \<Longrightarrow> example_pipeline d v = Inr
     \<lparr> dim = d, use_quadratic = False, keep_linear_terms = True, has_labels = True,
       seekable = False,
       working_file = Some (StreamingFile [([\<lparr> feat_index = 1, entry = v \<rparr>], 7)]),
       parser = \<lparr> p_examples = [], p_labelled = True, p_ring_size = 1024, p_running = True,
         p_example_held = True, free_vectors_on_destruct = True,
         free_vector_after_release = False, read_vector = Some get_sparse_vector,
         read_vector_and_label = Some get_sparse_vector_and_label \<rparr>,
       current_vector = [\<lparr> feat_index = 1, entry = v \<rparr>], current_label = 7,
       generic = Some ST_float64 \<rparr>"
  by (simp add: example_pipeline_def ctor_defs run_defs)

lemma dim_init: "dim (init T this file is_labelled buffer_size d use_quadr keep_lin_terms) = d"
  by (cases "file") (simp_all add: ctor_defs Let_def)

lemma current_vector_init:
  "current_vector (init T this file is_labelled buffer_size d use_quadr keep_lin_terms)
     = current_vector this"
  by (cases "file") (simp_all add: ctor_defs Let_def)

subsection \<open>The dot product of two pipelines\<close>

text \<open>
  C1 (as amended). \<open>dot\<close> rejects a null operand and an operand whose feature type
  tag or whose class name differs from this pipeline's. It compares no dimensions:
  for two pipelines of the same instantiation it returns the sparse dot product of
  their current vectors, whatever the two target dimensions are.
\<close>

theorem dot_without_dimension_check:
  "dot T this None = Inl AssertionFailed
   \<and> (df_get_feature_type d \<noteq> get_feature_type T \<or> df_get_name d \<noteq> get_name T
        \<longrightarrow> dot T this (Some d) = Inl AssertionFailed)
   \<and> dot T this (Some (Hashed T hdf))
       = Inr (sparse_dot (current_vector this) (current_vector hdf))"
  by (simp add: dot_def get_feature_type_def get_name_def)

theorem dot_without_dimension_check_witness:
  "dot ST_float64 (projr (example_pipeline 4 2))
       (Some (Other F_DREAL ''StreamingDenseFeatures'')) = Inl AssertionFailed
   \<and> dot ST_float64 (projr (example_pipeline 4 2))
       (Some (Hashed ST_float64 (projr (example_pipeline 8 3)))) = Inr 6"
  using dot_without_dimension_check [of ST_float64 "projr (example_pipeline 4 2)"
      "Other F_DREAL ''StreamingDenseFeatures''" "projr (example_pipeline 8 3)"]
  by (simp add: example_pipeline_value sparse_dot_def get_feature_type_def)

text \<open>
  C1 as stated fails: a pipeline of target dimension 4 and one of target dimension 8
  are accepted by \<open>dot\<close>, which returns the number 6.
\<close>

theorem dot_dimension_mismatch_counterexample:
  "dim (projr (example_pipeline 4 2)) = 4
   \<and> dim (projr (example_pipeline 8 3)) = 8
   \<and> dot ST_float64 (projr (example_pipeline 4 2))
        (Some (Hashed ST_float64 (projr (example_pipeline 8 3)))) = Inr 6"
  by (simp add: example_pipeline_value dot_def sparse_dot_def get_feature_type_def get_name_def)

subsection \<open>Accumulating into a dense vector\<close>

lemma add_to_dense_vec_loop_sum:
  "list_all (\<lambda>f. 0 \<le> feat_index f \<and> feat_index f < int (length vec2)) fs \<Longrightarrow>
   add_to_dense_vec_loop fs alpha vec2
     = Inr (map (\<lambda>i. vec2 ! i
                  + sum_list (map (\<lambda>f. alpha * entry f)
                                (filter (\<lambda>f. feat_index f = int i) fs)))
               [0..<length vec2])"
proof (induction fs arbitrary: vec2)
  case Nil
  show ?case by (simp add: map_nth)
next
  case (Cons f fs)
  let ?k = "nat (feat_index f)"
  let ?v = "vec2[?k := vec2 ! ?k + alpha * entry f]"
  from Cons.prems have k: "0 \<le> feat_index f" "?k < length vec2"
    and rest: "list_all (\<lambda>g. 0 \<le> feat_index g \<and> feat_index g < int (length ?v)) fs"
    by auto
  have "add_to_dense_vec_loop (f # fs) alpha vec2 = add_to_dense_vec_loop fs alpha ?v"
    using Cons.prems by simp
  also have "\<dots> = Inr (map (\<lambda>i. ?v ! i
                  + sum_list (map (\<lambda>g. alpha * entry g)
                                (filter (\<lambda>g. feat_index g = int i) fs)))
               [0..<length ?v])"
    by (rule Cons.IH [OF rest])
  also have "\<dots> = Inr (map (\<lambda>i. vec2 ! i
                  + sum_list (map (\<lambda>g. alpha * entry g)
                                (filter (\<lambda>g. feat_index g = int i) (f # fs))))
               [0..<length vec2])"
    using k by (auto simp add: nth_list_update)
  finally show ?case .
qed

text \<open>
  C2 (as amended). When every index of the current vector is in \<open>[0, dim)\<close> and
  the dense vector has \<open>dim\<close> elements, \<open>add_to_dense_vec\<close> with \<open>abs_val\<close> set
  adds \<open>abs(alpha) * value\<close> to \<open>vec2[idx]\<close> for each entry \<open>(idx, value)\<close> of the
  current vector: the absolute value is taken of \<open>alpha\<close>, not of the entry's value.
\<close>

theorem add_to_dense_vec_abs_scales_alpha:
  assumes "list_all (\<lambda>f. 0 \<le> feat_index f \<and> feat_index f < dim this) (current_vector this)"
    and "int (length vec2) = dim this"
  shows "add_to_dense_vec this alpha vec2 (dim this) True
     = Inr (map (\<lambda>i. vec2 ! i
                  + sum_list (map (\<lambda>f. \<bar>alpha\<bar> * entry f)
                                (filter (\<lambda>f. feat_index f = int i) (current_vector this))))
               [0..<length vec2])"
  using assms by (simp add: add_to_dense_vec_def add_to_dense_vec_loop_sum)

theorem add_to_dense_vec_abs_scales_alpha_witness:
  "add_to_dense_vec (projr (example_pipeline 4 2)) (- 3) [10, 20, 30, 40] 4 True
     = Inr [10, 26, 30, 40]"
  using add_to_dense_vec_abs_scales_alpha
    [of "projr (example_pipeline 4 2)" "[10, 20, 30, 40]" "- 3"]
  by (simp add: example_pipeline_value upt_rec)

text \<open>
  C2 as stated fails: with \<open>alpha = 3\<close> and the single entry \<open>(1, -2)\<close> the code
  adds \<open>abs(3) * (-2) = -6\<close> to slot 1, where the specification's
  \<open>alpha * abs(value)\<close> adds 6.
\<close>

theorem abs_of_entry_counterexample:
  "add_to_dense_vec (projr (example_pipeline 4 (- 2))) 3 [10, 20, 30, 40] 4 True
     = Inr [10, 14, 30, 40]
   \<and> accumulate_into_dense (projr (example_pipeline 4 (- 2))) [10, 20, 30, 40] 4 3 True
     = Inr [10, 26, 30, 40]"
  by (simp add: example_pipeline_value add_to_dense_vec_def accumulate_into_dense_def)

subsection \<open>The dot product with a dense vector\<close>

lemma dense_dot_loop_sum:
  "list_all (\<lambda>f. 0 \<le> feat_index f \<and> feat_index f < int (length vec2)) fs \<Longrightarrow>
   dense_dot_loop fs vec2 result
     = Inr (result + sum_list (map (\<lambda>f. vec2 ! nat (feat_index f) * entry f) fs))"
  by (induction fs arbitrary: result) (simp_all add: add.assoc)

text \<open>
  C5. When the declared length of the dense vector is not the target dimension,
  \<open>dense_dot\<close> fails at its assertion, whatever the dense array holds (it is not
  read; the function has no way to change it). When the declared length is the
  target dimension, the array has that many elements and every index of the current
  vector is in \<open>[0, dim)\<close>, \<open>dense_dot\<close> returns the sum, over the entries
  \<open>(idx, value)\<close> of the current vector, of \<open>vec2[idx] * value\<close>.
\<close>

theorem dense_dot_checks_length_then_sums:
  "(vec2_len \<noteq> dim this \<longrightarrow> dense_dot this vec2 vec2_len = Inl AssertionFailed)
   \<and> (vec2_len = dim this \<and> int (length vec2) = vec2_len
       \<and> list_all (\<lambda>f. 0 \<le> feat_index f \<and> feat_index f < dim this) (current_vector this)
      \<longrightarrow> dense_dot this vec2 vec2_len
          = Inr (sum_list (map (\<lambda>f. vec2 ! nat (feat_index f) * entry f)
                             (current_vector this))))"
  by (simp add: dense_dot_def dense_dot_loop_sum)

theorem dense_dot_checks_length_then_sums_witness:
  "dense_dot (projr (example_pipeline 4 2)) [1, 5, 1, 1] 3 = Inl AssertionFailed
   \<and> dense_dot (projr (example_pipeline 4 2)) [1, 5, 1, 1] 4 = Inr 10"
  using dense_dot_checks_length_then_sums [of 3 "projr (example_pipeline 4 2)" "[1, 5, 1, 1]"]
    dense_dot_checks_length_then_sums [of 4 "projr (example_pipeline 4 2)" "[1, 5, 1, 1]"]
  by (simp add: example_pipeline_value)

subsection \<open>Construction\<close>

text \<open>
  C4 (as amended). No constructor checks the target dimension: the file constructor
  and the in-memory constructor (given a batch) succeed for every \<open>d\<close>, positive
  or not, and store it as \<open>dim\<close>; the default constructor builds a pipeline of
  dimension 0.
\<close>

theorem construction_keeps_dimension:
  "\<not> isl (StreamingHashedSparseFeatures_file T seekable0 label0 file is_labelled buffer_size d
            use_quadr keep_lin_terms)
   \<and> dim (projr (StreamingHashedSparseFeatures_file T seekable0 label0 file is_labelled
                   buffer_size d use_quadr keep_lin_terms)) = d
   \<and> \<not> isl (StreamingHashedSparseFeatures_sparse T seekable0 label0 (Some batch) d use_quadr
              keep_lin_terms lab)
   \<and> dim (projr (StreamingHashedSparseFeatures_sparse T seekable0 label0 (Some batch) d
                   use_quadr keep_lin_terms lab)) = d
   \<and> \<not> isl (StreamingHashedSparseFeatures_default T seekable0 label0)
   \<and> dim (projr (StreamingHashedSparseFeatures_default T seekable0 label0)) = 0"
  by (simp add: StreamingHashedSparseFeatures_default_def StreamingHashedSparseFeatures_file_def
      StreamingHashedSparseFeatures_sparse_def dim_init Let_def)

text \<open>
  C4 as stated fails: the file constructor with \<open>d = -5\<close> and the default
  constructor both return a pipeline, of dimension -5 and 0.
\<close>

theorem nonpositive_dimension_counterexample:
  "\<not> isl (StreamingHashedSparseFeatures_file ST_float64 False 0 (Some (StreamingFile []))
            False 1024 (- 5) False True)
   \<and> dim (projr (StreamingHashedSparseFeatures_file ST_float64 False 0
                   (Some (StreamingFile [])) False 1024 (- 5) False True)) = - 5
   \<and> \<not> isl (StreamingHashedSparseFeatures_default ST_float64 False 0)
   \<and> dim (projr (StreamingHashedSparseFeatures_default ST_float64 False 0)) = 0"
  by (simp add: ctor_defs)

text \<open>
  C8. The in-memory constructor, given a batch, returns a pipeline with \<open>seekable\<close>
  set, with \<open>has_labels\<close> set exactly when a label array was passed, and with the
  parser told not to free the vectors on destruct. No other constructor sets
  \<open>seekable\<close>: the file constructor clears it when it has a file, and otherwise,
  like the default constructor, leaves it as it was.
\<close>

theorem in_memory_construction_flags:
  "\<not> isl (StreamingHashedSparseFeatures_sparse T seekable0 label0 (Some batch) d use_quadr
            keep_lin_terms lab)
   \<and> seekable (projr (StreamingHashedSparseFeatures_sparse T seekable0 label0 (Some batch) d
                   use_quadr keep_lin_terms lab))
   \<and> has_labels (projr (StreamingHashedSparseFeatures_sparse T seekable0 label0 (Some batch)
                   d use_quadr keep_lin_terms lab)) = (lab \<noteq> None)
   \<and> \<not> free_vectors_on_destruct (parser (projr (StreamingHashedSparseFeatures_sparse T
                   seekable0 label0 (Some batch) d use_quadr keep_lin_terms lab)))
   \<and> \<not> seekable (projr (StreamingHashedSparseFeatures_file T seekable0 label0 (Some f)
                   is_labelled buffer_size d use_quadr keep_lin_terms))
   \<and> seekable (projr (StreamingHashedSparseFeatures_file T seekable0 label0 None
                   is_labelled buffer_size d use_quadr keep_lin_terms)) = seekable0
   \<and> seekable (projr (StreamingHashedSparseFeatures_default T seekable0 label0)) = seekable0"
  by (simp add: ctor_defs Let_def)

subsection \<open>Queries and type tags\<close>

text \<open>
  C7. Whatever the state of the pipeline, \<open>get_num_vectors\<close> returns 1: the
  count is a constant of the streaming model, not the number of examples read.
\<close>

theorem get_num_vectors_is_one: "get_num_vectors this = 1"
  by (simp add: get_num_vectors_def)

text \<open>
  C9. For every element type \<open>get_feature_type\<close> returns \<open>F_UINT\<close>; so the tag of
  an operand of any element type equals the tag of this pipeline of any other
  element type, and the assertions of \<open>dot\<close> do not reject it.
\<close>

theorem feature_type_is_uint_for_every_element_type:
  "get_feature_type T = F_UINT
   \<and> df_get_feature_type (Hashed T' hdf) = get_feature_type T
   \<and> dot T this (Some (Hashed T' hdf)) \<noteq> Inl AssertionFailed"
  by (simp add: get_feature_type_def dot_def get_name_def)

subsection \<open>The lifecycle\<close>

text \<open>
  C3. When the producer yields no next example, \<open>get_next_example\<close> does not fail,
  returns false, and leaves the current vector and the current label as they were.
\<close>

theorem exhausted_producer_keeps_current:
  assumes "parser_get_next_example (parser this) = None"
  shows "\<not> isl (get_next_example hash hash_pair this)
    \<and> \<not> fst (projr (get_next_example hash hash_pair this))
    \<and> current_vector (snd (projr (get_next_example hash hash_pair this))) = current_vector this
    \<and> current_label (snd (projr (get_next_example hash hash_pair this))) = current_label this"
  using assms by (simp add: get_next_example_def)

theorem exhausted_producer_keeps_current_witness:
  "parser_get_next_example (parser (projr (example_pipeline 4 2))) = None
   \<and> \<not> fst (projr (get_next_example example_hash example_hash_pair
               (projr (example_pipeline 4 2))))
   \<and> current_vector (snd (projr (get_next_example example_hash example_hash_pair
        (projr (example_pipeline 4 2))))) = [\<lparr> feat_index = 1, entry = 2 \<rparr>]
   \<and> current_label (snd (projr (get_next_example example_hash example_hash_pair
        (projr (example_pipeline 4 2))))) = 7"
  using exhausted_producer_keeps_current
    [of "projr (example_pipeline 4 2)" example_hash example_hash_pair]
  by (simp add: example_pipeline_value parser_get_next_example_def)

text \<open>
  C10. \<open>release_example\<close> changes the parser only, by \<open>finalize_example\<close>: the
  current vector, the current label and the configuration members are as before,
  and so are the results of \<open>get_vector\<close> and \<open>get_label\<close>.
\<close>

theorem release_example_frame:
  "parser (release_example this) = finalize_example (parser this)
   \<and> current_vector (release_example this) = current_vector this
   \<and> current_label (release_example this) = current_label this
   \<and> dim (release_example this) = dim this
   \<and> use_quadratic (release_example this) = use_quadratic this
   \<and> keep_linear_terms (release_example this) = keep_linear_terms this
   \<and> has_labels (release_example this) = has_labels this
   \<and> seekable (release_example this) = seekable this
   \<and> get_vector (release_example this) = get_vector this
   \<and> get_label (release_example this) = get_label this"
  by (simp add: release_example_def get_vector_def get_label_def)

subsection \<open>The range of the indices\<close>

text \<open>
  The transform is defined for every positive dimension, and each of its steps
  keeps the indices below the dimension.
\<close>

lemma construct_current_vector: "construct c = Inr this \<Longrightarrow> current_vector this = []"
  by (cases c)
    (auto simp add: StreamingHashedSparseFeatures_default_def
      StreamingHashedSparseFeatures_file_def StreamingHashedSparseFeatures_sparse_def
      current_vector_init new_object_def Let_def split: option.splits)

lemma linear_terms_range:
  "0 < d \<Longrightarrow> f \<in> set (linear_terms hash d vec) \<Longrightarrow> 0 \<le> feat_index f \<and> feat_index f < d"
  by (auto simp add: linear_terms_def)

lemma quadratic_terms_range:
  "0 < d \<Longrightarrow> f \<in> set (quadratic_terms hash_pair d vec) \<Longrightarrow> 0 \<le> feat_index f \<and> feat_index f < d"
  by (induction vec) auto

lemma merge_terms_index:
  "f \<in> set (merge_terms terms) \<Longrightarrow> \<exists>g \<in> set terms. feat_index g = feat_index f"
  by (auto simp add: merge_terms_def)

lemma hash_vector_range:
  assumes "hash_vector hash hash_pair vec d use_quadr keep_lin_terms = Inr hashed"
  shows "list_all (\<lambda>f. 0 \<le> feat_index f \<and> feat_index f < d) hashed"
proof -
  from assms have d: "0 < d"
    and hashed: "hashed = merge_terms
        ((if use_quadr \<and> \<not> keep_lin_terms then [] else linear_terms hash d vec)
         @ (if use_quadr then quadratic_terms hash_pair d vec else []))"
    by (auto simp add: hash_vector_def split: if_splits)
  have "0 \<le> feat_index f \<and> feat_index f < d" if "f \<in> set hashed" for f
  proof -
    from that hashed obtain g where
      g: "g \<in> set ((if use_quadr \<and> \<not> keep_lin_terms then [] else linear_terms hash d vec)
         @ (if use_quadr then quadratic_terms hash_pair d vec else []))"
      and eq: "feat_index g = feat_index f"
      using merge_terms_index by blast
    from g d have "0 \<le> feat_index g \<and> feat_index g < d"
      by (auto split: if_splits dest: linear_terms_range quadratic_terms_range)
    with eq show ?thesis by simp
  qed
  then show ?thesis by (simp add: list_all_iff)
qed

lemma hash_vector_defined:
  "0 < d \<Longrightarrow> \<not> isl (hash_vector hash hash_pair vec d use_quadr keep_lin_terms)"
  by (simp add: hash_vector_def)

lemma get_next_example_False:
  "get_next_example hash hash_pair this = Inr (False, this') \<Longrightarrow> this' = this"
  by (auto simp add: get_next_example_def Let_def split: option.splits sum.splits)

lemma get_next_example_True:
  assumes "get_next_example hash hash_pair this = Inr (True, this')"
  obtains tmp label p hashed where
    "hash_vector hash hash_pair tmp (dim this) (use_quadratic this) (keep_linear_terms this)
       = Inr hashed"
    and "this' = this\<lparr> parser := p, current_label := label, current_vector := hashed \<rparr>"
proof (cases "parser_get_next_example (parser this)")
  case None
  with assms show ?thesis by (simp add: get_next_example_def)
next
  case (Some x)
  obtain tmp label p where x: "x = (tmp, label, p)" by (cases x)
  show ?thesis
  proof (cases "hash_vector hash hash_pair tmp (dim this) (use_quadratic this)
      (keep_linear_terms this)")
    case (Inl e)
    with assms Some x show ?thesis by (simp add: get_next_example_def)
  next
    case (Inr hashed)
    with assms Some x
    have "this' = this\<lparr> parser := p, current_label := label, current_vector := hashed \<rparr>"
      by (simp add: get_next_example_def)
    with Inr that show ?thesis by blast
  qed
qed

lemma get_next_example_fresh_range:
  assumes "get_next_example hash hash_pair this = Inr (True, this')"
  shows "list_all (\<lambda>f. 0 \<le> feat_index f \<and> feat_index f < dim this') (current_vector this')"
    and "dim this' = dim this"
proof -
  from assms obtain tmp label p hashed where
    h: "hash_vector hash hash_pair tmp (dim this) (use_quadratic this)
          (keep_linear_terms this) = Inr hashed"
    and t: "this' = this\<lparr> parser := p, current_label := label, current_vector := hashed \<rparr>"
    by (rule get_next_example_True)
  from t show "dim this' = dim this" by simp
  from hash_vector_range [OF h] t
  show "list_all (\<lambda>f. 0 \<le> feat_index f \<and> feat_index f < dim this') (current_vector this')"
    by simp
qed

lemma get_next_example_range:
  assumes "get_next_example hash hash_pair this = Inr (got, this')"
    and "list_all (\<lambda>f. 0 \<le> feat_index f \<and> feat_index f < dim this) (current_vector this)"
  shows "list_all (\<lambda>f. 0 \<le> feat_index f \<and> feat_index f < dim this') (current_vector this')"
proof (cases got)
  case True
  with assms(1) have "get_next_example hash hash_pair this = Inr (True, this')" by simp
  then show ?thesis by (rule get_next_example_fresh_range(1))
next
  case False
  with assms(1) have "get_next_example hash hash_pair this = Inr (False, this')" by simp
  then have "this' = this" by (rule get_next_example_False)
  with assms(2) show ?thesis by simp
qed

lemma run_range:
  "run hash hash_pair ops this = Inr this' \<Longrightarrow>
   list_all (\<lambda>f. 0 \<le> feat_index f \<and> feat_index f < dim this) (current_vector this) \<Longrightarrow>
   list_all (\<lambda>f. 0 \<le> feat_index f \<and> feat_index f < dim this') (current_vector this')"
proof (induction hash hash_pair ops this rule: run.induct)
  case (1 hash hash_pair this)
  then show ?case by simp
next
  case (2 hash hash_pair ops this)
  then show ?case by (simp add: start_parser_def)
next
  case (3 hash hash_pair ops this)
  from "3.prems"(1) obtain got mid where
    step: "get_next_example hash hash_pair this = Inr (got, mid)"
    and rest: "run hash hash_pair ops mid = Inr this'"
    by (auto split: sum.splits)
  from step "3.prems"(2)
  have "list_all (\<lambda>f. 0 \<le> feat_index f \<and> feat_index f < dim mid) (current_vector mid)"
    by (rule get_next_example_range)
  with "3.IH" step rest show ?case by simp
next
  case (4 hash hash_pair ops this)
  then show ?case by (simp add: release_example_def)
next
  case (5 hash hash_pair ops this)
  then show ?case by (simp add: end_parser_def)
qed

text \<open>
  C6. In every state that a constructor followed by any sequence of start, advance,
  release and stop operations reaches, every index of the current vector is in
  \<open>[0, dim)\<close>; and after any successful \<open>get_next_example\<close> every index of the
  vector that the hash transform produced is in \<open>[0, dim)\<close>, \<open>dim\<close> being
  unchanged by the call.
\<close>

theorem current_vector_indices_in_range:
  "(construct c = Inr this0 \<and> run hash hash_pair ops this0 = Inr this
      \<longrightarrow> list_all (\<lambda>f. 0 \<le> feat_index f \<and> feat_index f < dim this) (current_vector this))
   \<and> (get_next_example hash hash_pair this1 = Inr (True, this2)
      \<longrightarrow> list_all (\<lambda>f. 0 \<le> feat_index f \<and> feat_index f < dim this2) (current_vector this2)
          \<and> dim this2 = dim this1)"
proof (intro conjI impI)
  assume a: "construct c = Inr this0 \<and> run hash hash_pair ops this0 = Inr this"
  then have "current_vector this0 = []" by (auto dest: construct_current_vector)
  then have "list_all (\<lambda>f. 0 \<le> feat_index f \<and> feat_index f < dim this0) (current_vector this0)"
    by simp
  with a show "list_all (\<lambda>f. 0 \<le> feat_index f \<and> feat_index f < dim this) (current_vector this)"
    using run_range by blast
next
  assume "get_next_example hash hash_pair this1 = Inr (True, this2)"
  then show "list_all (\<lambda>f. 0 \<le> feat_index f \<and> feat_index f < dim this2) (current_vector this2)"
    by (rule get_next_example_fresh_range)
next
  assume "get_next_example hash hash_pair this1 = Inr (True, this2)"
  then show "dim this2 = dim this1"
    by (rule get_next_example_fresh_range)
qed


lemma example_batch_constructed:
  "construct example_batch = Inr
     \<lparr> dim = 4, use_quadratic = True, keep_linear_terms = True, has_labels = True,
       seekable = True,
       working_file = Some (StreamingFile
         [([\<lparr> feat_index = 3, entry = 2 \<rparr>, \<lparr> feat_index = 7, entry = 5 \<rparr>], 1),
          ([\<lparr> feat_index = 9, entry = 1 \<rparr>], - 1)]),
       parser = \<lparr> p_examples =
           [([\<lparr> feat_index = 3, entry = 2 \<rparr>, \<lparr> feat_index = 7, entry = 5 \<rparr>], 1),
            ([\<lparr> feat_index = 9, entry = 1 \<rparr>], - 1)],
         p_labelled = True, p_ring_size = 1024, p_running = False,
         p_example_held = False, free_vectors_on_destruct = False,
         free_vector_after_release = False, read_vector = Some get_sparse_vector,
         read_vector_and_label = Some get_sparse_vector_and_label \<rparr>,
       current_vector = [], current_label = 0, generic = Some ST_int32 \<rparr>"
  by (simp add: example_batch_def ctor_defs)

lemma example_batch_advanced:
  "get_next_example example_hash example_hash_pair
     (start_parser (projr (construct example_batch))) = Inr (True,
     \<lparr> dim = 4, use_quadratic = True, keep_linear_terms = True, has_labels = True,
       seekable = True,
       working_file = Some (StreamingFile
         [([\<lparr> feat_index = 3, entry = 2 \<rparr>, \<lparr> feat_index = 7, entry = 5 \<rparr>], 1),
          ([\<lparr> feat_index = 9, entry = 1 \<rparr>], - 1)]),
       parser = \<lparr> p_examples = [([\<lparr> feat_index = 9, entry = 1 \<rparr>], - 1)],
         p_labelled = True, p_ring_size = 1024, p_running = True,
         p_example_held = True, free_vectors_on_destruct = False,
         free_vector_after_release = False, read_vector = Some get_sparse_vector,
         read_vector_and_label = Some get_sparse_vector_and_label \<rparr>,
       current_vector = [\<lparr> feat_index = 3, entry = 7 \<rparr>, \<lparr> feat_index = 2, entry = 39 \<rparr>],
       current_label = 1, generic = Some ST_int32 \<rparr>)"
  by (simp add: example_batch_constructed run_defs)

lemma example_batch_succeeds:
  "construct example_batch = Inr (projr (construct example_batch))"
  by (simp add: example_batch_constructed)

theorem current_vector_indices_in_range_witness:
  "construct example_batch = Inr (projr (construct example_batch))
   \<and> run example_hash example_hash_pair [Start, Advance, Release]
        (projr (construct example_batch))
      = Inr (release_example (snd (projr (get_next_example example_hash example_hash_pair
          (start_parser (projr (construct example_batch)))))))
   \<and> get_next_example example_hash example_hash_pair
        (start_parser (projr (construct example_batch)))
      = Inr (True, snd (projr (get_next_example example_hash example_hash_pair
          (start_parser (projr (construct example_batch))))))
   \<and> current_vector (release_example (snd (projr (get_next_example example_hash
        example_hash_pair (start_parser (projr (construct example_batch)))))))
      = [\<lparr> feat_index = 3, entry = 7 \<rparr>, \<lparr> feat_index = 2, entry = 39 \<rparr>]
   \<and> dim (release_example (snd (projr (get_next_example example_hash
        example_hash_pair (start_parser (projr (construct example_batch))))))) = 4
   \<and> list_all (\<lambda>f. 0 \<le> feat_index f \<and> feat_index f
          < dim (release_example (snd (projr (get_next_example example_hash
              example_hash_pair (start_parser (projr (construct example_batch))))))))
        (current_vector (release_example (snd (projr (get_next_example example_hash
          example_hash_pair (start_parser (projr (construct example_batch))))))))"
proof -
  let ?made = "projr (construct example_batch)"
  let ?started = "start_parser ?made"
  let ?advanced = "snd (projr (get_next_example example_hash example_hash_pair ?started))"
  let ?released = "release_example ?advanced"
  have c: "construct example_batch = Inr ?made"
    by (rule example_batch_succeeds)
  have a: "get_next_example example_hash example_hash_pair ?started = Inr (True, ?advanced)"
    by (simp add: example_batch_advanced)
  have r: "run example_hash example_hash_pair [Start, Advance, Release] ?made = Inr ?released"
    by (simp add: example_batch_advanced)
  have v: "current_vector ?released = [\<lparr> feat_index = 3, entry = 7 \<rparr>, \<lparr> feat_index = 2, entry = 39 \<rparr>]"
    by (simp add: example_batch_advanced release_example_def)
  have d: "dim ?released = 4"
    by (simp add: example_batch_advanced release_example_def)
  from current_vector_indices_in_range [of example_batch ?made example_hash example_hash_pair
      "[Start, Advance, Release]" ?released ?started ?advanced] c r
  have l: "list_all (\<lambda>f. 0 \<le> feat_index f \<and> feat_index f < dim ?released) (current_vector ?released)"
    by blast
  from c r a v d l show ?thesis by blast
qed

end
